theory Spec2Isabelle
  imports Main
begin

section \<open>Timestamps and the RFC1123 layout\<close>

text \<open>
  The handlers of \<^verbatim>\<open>api/api.go\<close> render every timestamp with
  \<^verbatim>\<open>msg.CreatedAt.Format(time.RFC1123)\<close>. The type \<^verbatim>\<open>time.Time\<close> and its
  method \<^verbatim>\<open>Format\<close> belong to Go's standard library (package time, as of Go 1.22,
  the first release with the routing patterns and \<^verbatim>\<open>PathValue\<close> that
  \<^verbatim>\<open>api/api.go\<close> uses). What \<^verbatim>\<open>Format\<close> reads of a time value is the instant
  (\<^verbatim>\<open>unixSec()\<close>, a 64-bit count of seconds since the Unix epoch) and the zone in
  force at that instant in the value's location: its abbreviation and its offset east
  of UTC, in seconds. A time value is modelled by these three components; for a value
  in the location UTC they are the instant, \<open>''UTC''\<close> and \<open>0\<close>.
\<close>

record Time =
  unixSec :: int
  zoneName :: string
  zoneOffset :: int


text \<open>The zero value \<^verbatim>\<open>time.Time{}\<close>: January 1 of year 1, 00:00:00 UTC.\<close>

definition zeroTime :: Time where
  "zeroTime = \<lparr>unixSec = - 62135596800, zoneName = ''UTC'', zoneOffset = 0\<rparr>"

text \<open>
  \<^verbatim>\<open>t.abs()\<close>: the seconds since the library's absolute zero (January 1 of the year
  \<open>absoluteZeroYear\<close>), in the time's own zone, as a \<^verbatim>\<open>uint64\<close>. The library adds
  the zone offset and the constant \<^verbatim>\<open>unixToInternal + internalToAbsolute\<close>
  \<open>= 62135596800 + 9223371966579724800\<close> in 64-bit arithmetic, which wraps.
\<close>

definition absoluteZeroYear :: int where
  "absoluteZeroYear = - 292277022399"

definition absSeconds :: "Time \<Rightarrow> int" where
  "absSeconds t = (unixSec t + zoneOffset t + 9223372028715321600) mod 2 ^ 64"

definition isLeap :: "int \<Rightarrow> bool" where
  "isLeap year \<longleftrightarrow> year mod 4 = 0 \<and> (year mod 100 \<noteq> 0 \<or> year mod 400 = 0)"

definition daysBefore :: "int list" where
  "daysBefore = [0, 31, 59, 90, 120, 151, 181, 212, 243, 273, 304, 334, 365]"

text \<open>
  \<^verbatim>\<open>absDate(abs, true)\<close>: year, month and day of the month. The day count is cut
  into cycles of 400, 100, 4 and 1 years (\<^verbatim>\<open>n -= n >> 2\<close> is \<open>n - n div 4\<close>); the
  month is estimated as \<open>day div 31\<close> and corrected with the table \<open>daysBefore\<close>.
\<close>

definition absDate :: "int \<Rightarrow> int \<times> int \<times> int" where
  "absDate a =
     (let d0 = a div 86400;
          n400 = d0 div 146097;
          d1 = d0 - 146097 * n400;
          n100 = d1 div 36524 - d1 div 36524 div 4;
          d2 = d1 - 36524 * n100;
          n4 = d2 div 1461;
          d3 = d2 - 1461 * n4;
          n1 = d3 div 365 - d3 div 365 div 4;
          yday = d3 - 365 * n1;
          year = 400 * n400 + 100 * n100 + 4 * n4 + n1 + absoluteZeroYear
      in if isLeap year \<and> yday = 31 + 29 - 1 then (year, 2, 29)
         else (let day = (if isLeap year \<and> yday > 31 + 29 - 1 then yday - 1 else yday);
                   m = day div 31;
                   e = daysBefore ! nat (m + 1)
               in if day \<ge> e then (year, m + 2, day - e + 1)
                  else (year, m + 1, day - daysBefore ! nat m + 1)))"

text \<open>\<^verbatim>\<open>absWeekday(abs)\<close>, with Sunday as 0; the sum wraps in 64 bits.\<close>

definition absWeekday :: "int \<Rightarrow> int" where
  "absWeekday a = (a + 86400) mod 2 ^ 64 mod 604800 div 86400"

text \<open>Decimal digits of a non-negative number, most significant first.\<close>

function digits :: "int \<Rightarrow> string" where
  "digits n =
     (if n < 10 then [''0123456789'' ! nat n]
      else digits (n div 10) @ [''0123456789'' ! nat (n mod 10)])"
  by pat_completeness auto

termination
  by (relation "measure nat") auto

declare digits.simps [simp del]

text \<open>
  \<^verbatim>\<open>appendInt(b, x, width)\<close> of package time: a minus sign for a negative \<open>x\<close>,
  then the decimal digits of \<open>|x|\<close>, padded with zeros on the left to \<open>width\<close>.
\<close>

definition appendInt :: "int \<Rightarrow> nat \<Rightarrow> string" where
  "appendInt x width =
     (let ds = digits \<bar>x\<bar>
      in (if x < 0 then ''-'' else []) @ replicate (width - length ds) CHR ''0'' @ ds)"

definition shortDayNames :: "string list" where
  "shortDayNames = [''Sun'', ''Mon'', ''Tue'', ''Wed'', ''Thu'', ''Fri'', ''Sat'']"

definition shortMonthNames :: "string list" where
  "shortMonthNames =
     [''Jan'', ''Feb'', ''Mar'', ''Apr'', ''May'', ''Jun'',
      ''Jul'', ''Aug'', ''Sep'', ''Oct'', ''Nov'', ''Dec'']"

text \<open>
  The zone field \<^verbatim>\<open>MST\<close> of a layout: the zone abbreviation when there is one,
  otherwise the offset as sign, hours and minutes. \<^verbatim>\<open>zone := offset / 60\<close>
  truncates towards zero in Go; \<open>div\<close> rounds down, so the magnitude is divided and
  the sign put back.
\<close>

definition formatZone :: "string \<Rightarrow> int \<Rightarrow> string" where
  "formatZone name offset =
     (if name \<noteq> [] then name
      else (let zone = sgn offset * (\<bar>offset\<bar> div 60)
            in (if zone < 0 then ''-'' else ''+'')
               @ appendInt (\<bar>zone\<bar> div 60) 2 @ appendInt (\<bar>zone\<bar> mod 60) 2))"

text \<open>
  \<^verbatim>\<open>t.Format(time.RFC1123)\<close>, the layout \<^verbatim>\<open>"Mon, 02 Jan 2006 15:04:05 MST"\<close>:
  weekday, day, month, year, clock and zone, all read off \<open>absSeconds t\<close>.
\<close>

definition formatRFC1123 :: "Time \<Rightarrow> string" where
  "formatRFC1123 t =
     (let a = absSeconds t;
          (year, month, day) = absDate a;
          clock = a mod 86400
      in shortDayNames ! nat (absWeekday a) @ '', ''
         @ appendInt day 2 @ '' ''
         @ shortMonthNames ! nat (month - 1) @ '' ''
         @ appendInt year 4 @ '' ''
         @ appendInt (clock div 3600) 2 @ '':''
         @ appendInt (clock mod 3600 div 60) 2 @ '':''
         @ appendInt (clock mod 60) 2 @ '' ''
         @ formatZone (zoneName t) (zoneOffset t))"

section \<open>Messages, collaborators and responses\<close>

text \<open>
  Modelled from the spec: the declaration of \<^verbatim>\<open>api.Message\<close> is not among the
  sources. The fields are those that \<^verbatim>\<open>api/api.go\<close> reads and writes (\<^verbatim>\<open>ID\<close>,
  \<^verbatim>\<open>Text\<close>, \<^verbatim>\<open>UserID\<close>, \<^verbatim>\<open>CreatedAt\<close>), which are the four fields of the
  spec's data model: identity, text, author identifier, creation timestamp.
\<close>

record Message =
  ID :: string
  Text :: string
  UserID :: string
  CreatedAt :: Time

text \<open>A Go \<^verbatim>\<open>error\<close> is used only through its text, \<^verbatim>\<open>err.Error()\<close>.\<close>

type_synonym error = string

text \<open>
  The interfaces \<^verbatim>\<open>DB\<close> and \<^verbatim>\<open>Cache\<close> held by the struct \<^verbatim>\<open>API\<close>. An
  implementation may keep state of its own; \<open>'s\<close> is the state of both collaborators,
  passed to every call and returned by it. A call that returns a non-nil error is
  \<open>Inl\<close> (the handlers never look at the other result then).
\<close>

record 's API =
  DB_ListMessages :: "int \<Rightarrow> int \<Rightarrow> 's \<Rightarrow> (error + Message list) \<times> 's"
  DB_InsertMessage :: "Message \<Rightarrow> 's \<Rightarrow> (error + Message) \<times> 's"
  Cache_ListMessages :: "int \<Rightarrow> 's \<Rightarrow> (error + Message list) \<times> 's"
  Cache_InsertMessage :: "Message \<Rightarrow> 's \<Rightarrow> error option \<times> 's"

text \<open>Records written to \<^verbatim>\<open>a.Logger\<close>: level, message and key-value pairs.\<close>

datatype level = LevelInfo | LevelError

datatype attr = IntAttr int | StrAttr string

datatype log_entry = LogEntry level string "(string \<times> attr) list"

text \<open>
  The JSON shape \<^verbatim>\<open>{"id","text","user_id","created_at"}\<close> of the local types
  \<^verbatim>\<open>message\<close> (in \<^verbatim>\<open>listMessages\<close>) and \<^verbatim>\<open>response\<close> (in
  \<^verbatim>\<open>createMessage\<close>), and the bodies handed to \<^verbatim>\<open>respond\<close>.
\<close>

record messageJSON =
  json_id :: string
  json_text :: string
  json_user_id :: string
  json_created_at :: string

datatype body =
    ErrorBody string
  | MessagesBody "messageJSON list"
  | MessageBody messageJSON

record response =
  status :: int
  contentType :: string
  body :: body

text \<open>
  What one run of a handler leaves behind: the response written, the log records in
  order, and the state of the collaborators after the calls the handler made.
\<close>

record 's outcome =
  response :: response
  logged :: "log_entry list"
  final :: 's

definition StatusOK :: int where
  "StatusOK = 200"

definition StatusCreated :: int where
  "StatusCreated = 201"

definition StatusBadRequest :: int where
  "StatusBadRequest = 400"

definition StatusInternalServerError :: int where
  "StatusInternalServerError = 500"

definition StatusNotImplemented :: int where
  "StatusNotImplemented = 501"

text \<open>
  \<^verbatim>\<open>respond\<close> sets the content type, writes the status and encodes the body. The
  bodies of this file hold strings only, which the JSON encoder always accepts, so the
  branch that logs an encoding failure is never taken.
\<close>

definition respond :: "int \<Rightarrow> body \<Rightarrow> response" where
  "respond st b = \<lparr>status = st, contentType = ''application/json; charset=utf-8'', body = b\<rparr>"

text \<open>\<^verbatim>\<open>respondError\<close> logs the error's text and responds with the given message.\<close>

definition respondError :: "int \<Rightarrow> error \<Rightarrow> string \<Rightarrow> log_entry \<times> response" where
  "respondError st err msg =
     (LogEntry LevelError ''Error'' [(''error'', StrAttr err)], respond st (ErrorBody msg))"

definition toJSON :: "Message \<Rightarrow> messageJSON" where
  "toJSON msg =
     \<lparr>json_id = ID msg, json_text = Text msg, json_user_id = UserID msg,
      json_created_at = formatRFC1123 (CreatedAt msg)\<rparr>"

section \<open>The handlers\<close>

definition pageSize :: int where
  "pageSize = 10"

definition listMessages :: "'s API \<Rightarrow> 's \<Rightarrow> 's outcome" where
  "listMessages a s =
     (case Cache_ListMessages a pageSize s of
        (Inl err, s1) \<Rightarrow>
          (let (l, r) = respondError StatusInternalServerError err ''Could not list messages''
           in \<lparr>response = r, logged = [l], final = s1\<rparr>)
      | (Inr msgs, s1) \<Rightarrow>
          (let remain = pageSize - int (length msgs);
               l1 = LogEntry LevelInfo ''Got messages from cache''
                      [(''count'', IntAttr (int (length msgs))), (''remain'', IntAttr remain)]
           in if remain > 0 then
                (case DB_ListMessages a (int (length msgs)) remain s1 of
                   (Inl err, s2) \<Rightarrow>
                     (let (l, r) = respondError StatusInternalServerError err
                                     ''Could not list messages''
                      in \<lparr>response = r, logged = [l1, l], final = s2\<rparr>)
                 | (Inr dbMsgs, s2) \<Rightarrow>
                     \<lparr>response = respond StatusOK (MessagesBody (map toJSON (msgs @ dbMsgs))),
                      logged = [l1, LogEntry LevelInfo ''Got remaining messages from DB''
                                      [(''count'', IntAttr (int (length dbMsgs)))]],
                      final = s2\<rparr>)
              else
                \<lparr>response = respond StatusOK (MessagesBody (map toJSON msgs)),
                 logged = [l1], final = s1\<rparr>))"

text \<open>
  The request body of \<^verbatim>\<open>createMessage\<close> after \<^verbatim>\<open>json.NewDecoder(r.Body).Decode\<close>:
  the decoder's error, or the decoded struct. \<open>now\<close> is the value of \<^verbatim>\<open>time.Now()\<close>.
\<close>

record createMessageRequest =
  req_text :: string
  req_user_id :: string

definition createMessage ::
  "'s API \<Rightarrow> Time \<Rightarrow> error + createMessageRequest \<Rightarrow> 's \<Rightarrow> 's outcome" where
  "createMessage a now decoded s =
     (case decoded of
        Inl err \<Rightarrow>
          (let (l, r) = respondError StatusBadRequest err ''Could not decode request body''
           in \<lparr>response = r, logged = [l], final = s\<rparr>)
      | Inr req \<Rightarrow>
          (case DB_InsertMessage a
                  \<lparr>ID = [], Text = req_text req, UserID = req_user_id req, CreatedAt = now\<rparr> s of
             (Inl err, s1) \<Rightarrow>
               (let (l, r) = respondError StatusInternalServerError err
                               ''Could not insert message''
                in \<lparr>response = r, logged = [l], final = s1\<rparr>)
           | (Inr msg, s1) \<Rightarrow>
               (case Cache_InsertMessage a msg s1 of
                  (cerr, s2) \<Rightarrow>
                    \<lparr>response = respond StatusCreated (MessageBody (toJSON msg)),
                     logged = (case cerr of
                                 None \<Rightarrow> []
                               | Some err \<Rightarrow> [LogEntry LevelError ''Could not cache message''
                                                [(''error'', StrAttr err)]]),
                     final = s2\<rparr>)))"

text \<open>
  \<^verbatim>\<open>createReaction\<close>: \<open>messageID\<close> is \<^verbatim>\<open>r.PathValue("messageID")\<close>, \<open>decoded\<close> the
  outcome of decoding the body into the local struct \<^verbatim>\<open>request\<close>. The handler uses
  neither collaborator.
\<close>

record createReactionRequest =
  req_type :: string
  req_score :: int
  req_reaction_user_id :: string

definition createReaction ::
  "'s API \<Rightarrow> string \<Rightarrow> error + createReactionRequest \<Rightarrow> 's \<Rightarrow> 's outcome" where
  "createReaction a messageID decoded s =
     (case decoded of
        Inl err \<Rightarrow>
          (let (l, r) = respondError StatusBadRequest err ''Could not decode request body''
           in \<lparr>response = r, logged = [l], final = s\<rparr>)
      | Inr req \<Rightarrow>
          (let err = ''could not create reaction for message with id '' @ messageID;
               (l, r) = respondError StatusNotImplemented err err
           in \<lparr>response = r, logged = [l], final = s\<rparr>))"

section \<open>The Postgres store's insert\<close>

text \<open>
  Modelled from the spec: the row type \<^verbatim>\<open>message\<close> of package postgres and its
  method \<^verbatim>\<open>APIMessage\<close> are not among the sources. \<^verbatim>\<open>InsertMessage\<close> sets the
  row's \<^verbatim>\<open>MessageText\<close> and \<^verbatim>\<open>UserID\<close>; by the spec the store assigns identity and
  creation timestamp on insert and returns the message with both, so the row carries
  these four columns and \<^verbatim>\<open>APIMessage\<close> copies them into a \<^verbatim>\<open>Message\<close>.
\<close>

record message =
  row_id :: string
  MessageText :: string
  row_user_id :: string
  row_created_at :: Time

definition APIMessage :: "message \<Rightarrow> Message" where
  "APIMessage m =
     \<lparr>ID = row_id m, Text = MessageText m, UserID = row_user_id m, CreatedAt = row_created_at m\<rparr>"

text \<open>
  \<^verbatim>\<open>Postgres.InsertMessage\<close>. The statement \<^verbatim>\<open>pg.bun.NewInsert().Model(m).Exec(ctx)\<close>
  runs in the database: \<open>exec\<close> stands for it, returning an error or the row as the
  database has filled it in. The row handed to it has only text and author set; the
  other two columns hold Go's zero values.
\<close>

definition InsertMessage ::
  "(message \<Rightarrow> 's \<Rightarrow> (error + message) \<times> 's) \<Rightarrow> Message \<Rightarrow> 's \<Rightarrow> (error + Message) \<times> 's" where
  "InsertMessage exec msg s =
     (case exec \<lparr>row_id = [], MessageText = Text msg, row_user_id = UserID msg,
                 row_created_at = zeroTime\<rparr> s of
        (Inl err, s1) \<Rightarrow> (Inl (''insert: '' @ err), s1)
      | (Inr m1, s1) \<Rightarrow> (Inr (APIMessage m1), s1))"

section \<open>Recording collaborators and test data\<close>

text \<open>
  Collaborators in the manner of \<^verbatim>\<open>testdb\<close> and \<^verbatim>\<open>testcache\<close> of the
  repository's test file. Their state is the list of the calls they have received, in
  order; each call is appended when, and only when, the handler applies the
  collaborator's function. The answer to a call is any function of the calls received
  so far and of the arguments, so every deterministic pair of collaborators is of this
  form.
\<close>

datatype call =
    CacheListMessages int
  | DBListMessages int int
  | DBInsertMessage Message
  | CacheInsertMessage Message

definition recAPI ::
  "(call list \<Rightarrow> int \<Rightarrow> error + Message list)
     \<Rightarrow> (call list \<Rightarrow> int \<Rightarrow> int \<Rightarrow> error + Message list)
     \<Rightarrow> (call list \<Rightarrow> Message \<Rightarrow> error + Message)
     \<Rightarrow> (call list \<Rightarrow> Message \<Rightarrow> error option) \<Rightarrow> call list API" where
  "recAPI cacheList dbList dbInsert cacheInsert =
     \<lparr>DB_ListMessages =
        (\<lambda>offset limit h. (dbList h offset limit, h @ [DBListMessages offset limit])),
      DB_InsertMessage = (\<lambda>msg h. (dbInsert h msg, h @ [DBInsertMessage msg])),
      Cache_ListMessages = (\<lambda>limit h. (cacheList h limit, h @ [CacheListMessages limit])),
      Cache_InsertMessage = (\<lambda>msg h. (cacheInsert h msg, h @ [CacheInsertMessage msg]))\<rparr>"

text \<open>\<^verbatim>\<open>time.Date(2024, 1, d, 0, 0, 0, 0, time.UTC)\<close> for \<open>d = 1, 2\<close>.\<close>

definition jan1 :: Time where
  "jan1 = \<lparr>unixSec = 1704067200, zoneName = ''UTC'', zoneOffset = 0\<rparr>"

definition jan2 :: Time where
  "jan2 = \<lparr>unixSec = 1704153600, zoneName = ''UTC'', zoneOffset = 0\<rparr>"


definition hello :: Message where
  "hello = \<lparr>ID = ''1'', Text = ''Hello'', UserID = ''testuser'', CreatedAt = jan1\<rparr>"

definition world :: Message where
  "world = \<lparr>ID = ''2'', Text = ''World'', UserID = ''testuser'', CreatedAt = jan2\<rparr>"

text \<open>
  The collaborators of the test cases of \<^verbatim>\<open>TestAPI_listMessages\<close>: a cache and a
  store that answer every list call with a fixed result.
\<close>

definition listAPI :: "(error + Message list) \<Rightarrow> (error + Message list) \<Rightarrow> call list API" where
  "listAPI cacheResult dbResult =
     recAPI (\<lambda>h limit. cacheResult) (\<lambda>h offset limit. dbResult)
       (\<lambda>h msg. Inl ''unused'') (\<lambda>h msg. None)"

text \<open>
  The collaborators of the test cases \<^verbatim>\<open>OK\<close>, \<^verbatim>\<open>CacheError\<close> and
  \<^verbatim>\<open>DBError\<close> of \<^verbatim>\<open>TestAPI_createMessage\<close>: the store's insert answers with
  identity \<open>''1''\<close> and the timestamp \<open>jan1\<close>, or fails; the cache's insert answers with
  a fixed result.
\<close>

definition insertOK :: "Message \<Rightarrow> error + Message" where
  "insertOK msg = Inr \<lparr>ID = ''1'', Text = Text msg, UserID = UserID msg, CreatedAt = jan1\<rparr>"

definition createAPI :: "(Message \<Rightarrow> error + Message) \<Rightarrow> error option \<Rightarrow> call list API" where
  "createAPI dbInsert cacheResult =
     recAPI (\<lambda>h limit. Inr []) (\<lambda>h offset limit. Inr [])
       (\<lambda>h msg. dbInsert msg) (\<lambda>h msg. cacheResult)"

definition helloRequest :: createMessageRequest where
  "helloRequest = \<lparr>req_text = ''hello'', req_user_id = ''test''\<rparr>"

definition thumbsUp :: createReactionRequest where
  "thumbsUp = \<lparr>req_type = ''thumbs_up'', req_score = 0, req_reaction_user_id = ''test''\<rparr>"

text \<open>
  A database that fills in identity and creation timestamp of the row it stores, and
  an API whose store is \<^verbatim>\<open>Postgres.InsertMessage\<close> over it. The state counts the
  statements executed.
\<close>

definition execOK :: "message \<Rightarrow> nat \<Rightarrow> (error + message) \<times> nat" where
  "execOK m n = (Inr (m\<lparr>row_id := ''1'', row_created_at := jan1\<rparr>), Suc n)"

definition pgAPI :: "nat API" where
  "pgAPI =
     \<lparr>DB_ListMessages = (\<lambda>offset limit n. (Inr [], n)),
      DB_InsertMessage = InsertMessage execOK,
      Cache_ListMessages = (\<lambda>limit n. (Inr [], n)),
      Cache_InsertMessage = (\<lambda>msg n. (None, n))\<rparr>"

section \<open>Evaluating the layout\<close>

text \<open>
  The layout on the timestamps of the repository's tests, on a timestamp in a zone
  east of UTC, on one in a zone without abbreviation, on the zero value, and on the
  least 64-bit instant, where the sum in \<open>absSeconds\<close> wraps.
\<close>

lemma formatRFC1123_jan1:
  "formatRFC1123 jan1 = ''Mon, 01 Jan 2024 00:00:00 UTC''"
  by code_simp

lemma formatRFC1123_jan2:
  "formatRFC1123 jan2 = ''Tue, 02 Jan 2024 00:00:00 UTC''"
  by code_simp



lemma formatRFC1123_zeroTime:
  "formatRFC1123 zeroTime = ''Mon, 01 Jan 0001 00:00:00 UTC''"
  by code_simp

lemma formatRFC1123_MinInt64:
  "formatRFC1123 \<lparr>unixSec = - 9223372036854775808, zoneName = ''UTC'', zoneOffset = 0\<rparr>
     = ''Sun, 04 Dec 292277026596 15:30:08 UTC''"
  by code_simp

lemma formatRFC1123_numeric_zone:
  "formatRFC1123 \<lparr>unixSec = 951782400, zoneName = [], zoneOffset = - 12600\<rparr>
     = ''Mon, 28 Feb 2000 20:30:00 -0330''"
  by code_simp

section \<open>Listing messages\<close>

text \<open>
  Claim C1. The page size is fixed at 10. Let the cache return \<open>c\<close> messages. With
  recording collaborators, whatever they answer, the calls received during
  \<open>listMessages\<close> are the cache's \<open>ListMessages(10)\<close> followed, when \<open>c < 10\<close>, by
  exactly one \<open>ListMessages(c, 10 - c)\<close> of the durable store, and the cache call alone
  when \<open>c \<ge> 10\<close>. For collaborators of any kind, the state the handler leaves is the
  one returned by the store's \<open>ListMessages\<close> applied to offset \<open>c\<close>, limit
  \<open>pageSize - c\<close> and the state after the cache call when \<open>c < pageSize\<close>, and the state
  after the cache call itself when \<open>c \<ge> pageSize\<close>.
\<close>

theorem listMessages_db_query:
  "pageSize = 10
   \<and> (cacheList h pageSize = Inr msgs \<longrightarrow>
        final (listMessages (recAPI cacheList dbList dbInsert cacheInsert) h) =
          (if int (length msgs) < 10
           then h @ [CacheListMessages 10,
                     DBListMessages (int (length msgs)) (10 - int (length msgs))]
           else h @ [CacheListMessages 10]))
   \<and> (Cache_ListMessages a pageSize s = (Inr msgs, s1) \<longrightarrow>
        final (listMessages a s) =
          (if int (length msgs) < pageSize
           then snd (DB_ListMessages a (int (length msgs)) (pageSize - int (length msgs)) s1)
           else s1))"
  by (simp add: listMessages_def recAPI_def respondError_def Let_def pageSize_def
           split: prod.splits sum.splits)

theorem listMessages_db_query_witness:
  "Cache_ListMessages (listAPI (Inr [hello]) (Inr [world])) pageSize []
     = (Inr [hello], [CacheListMessages 10])
   \<and> final (listMessages (listAPI (Inr [hello]) (Inr [world])) [])
       = [CacheListMessages 10, DBListMessages 1 9]
   \<and> Cache_ListMessages (listAPI (Inr (replicate 10 hello)) (Inr [world])) pageSize []
       = (Inr (replicate 10 hello), [CacheListMessages 10])
   \<and> final (listMessages (listAPI (Inr (replicate 10 hello)) (Inr [world])) [])
       = [CacheListMessages 10]"
  using listMessages_db_query
          [of "\<lambda>h limit. Inr [hello]" "[]" "[hello]" "\<lambda>h offset limit. Inr [world]"
              "\<lambda>h msg. Inl ''unused''" "\<lambda>h msg. None"
              "listAPI (Inr [hello]) (Inr [world])" "[]" "[CacheListMessages 10]"]
        listMessages_db_query
          [of "\<lambda>h limit. Inr (replicate 10 hello)" "[]" "replicate 10 hello"
              "\<lambda>h offset limit. Inr [world]"
              "\<lambda>h msg. Inl ''unused''" "\<lambda>h msg. None"
              "listAPI (Inr (replicate 10 hello)) (Inr [world])" "[]" "[CacheListMessages 10]"]
  by (simp add: listAPI_def recAPI_def)

text \<open>
  Claim C2. When the cache read succeeds with \<open>cacheMsgs\<close> and the store's read (made
  only if fewer than \<open>pageSize\<close> messages came from the cache; \<open>dbMsgs\<close> is empty
  otherwise) succeeds with \<open>dbMsgs\<close>, the response is 200 and its body lists the JSON
  forms of \<open>cacheMsgs\<close>, in their order, followed by those of \<open>dbMsgs\<close>, in their
  order. If the cache returned at most \<open>pageSize\<close> messages and the store at most the
  limit \<open>pageSize - length cacheMsgs\<close> it was asked for, the body holds at most
  \<open>pageSize\<close> messages.
\<close>

theorem listMessages_success_order:
  assumes "Cache_ListMessages a pageSize s = (Inr cacheMsgs, s1)"
    and "int (length cacheMsgs) < pageSize \<Longrightarrow>
           DB_ListMessages a (int (length cacheMsgs)) (pageSize - int (length cacheMsgs)) s1
             = (Inr dbMsgs, s2)"
    and "pageSize \<le> int (length cacheMsgs) \<Longrightarrow> dbMsgs = []"
  shows "response (listMessages a s) =
           \<lparr>status = 200, contentType = ''application/json; charset=utf-8'',
            body = MessagesBody
                     (map (\<lambda>m. \<lparr>json_id = ID m, json_text = Text m, json_user_id = UserID m,
                                 json_created_at = formatRFC1123 (CreatedAt m)\<rparr>)
                        (cacheMsgs @ dbMsgs))\<rparr>
         \<and> (int (length cacheMsgs) \<le> pageSize
              \<and> int (length dbMsgs) \<le> pageSize - int (length cacheMsgs) \<longrightarrow>
            (case body (response (listMessages a s)) of
               MessagesBody out \<Rightarrow> int (length out) \<le> pageSize
             | _ \<Rightarrow> False))"
proof (cases "int (length cacheMsgs) < pageSize")
  case True
  with assms(2) have
    "DB_ListMessages a (int (length cacheMsgs)) (pageSize - int (length cacheMsgs)) s1
       = (Inr dbMsgs, s2)"
    by simp
  with assms(1) True show ?thesis
    by (simp add: listMessages_def Let_def respond_def StatusOK_def toJSON_def [abs_def])
next
  case False
  with assms(3) have "dbMsgs = []"
    by simp
  with assms(1) False show ?thesis
    by (simp add: listMessages_def Let_def respond_def StatusOK_def toJSON_def [abs_def])
qed

theorem listMessages_success_order_witness:
  "Cache_ListMessages (listAPI (Inr [hello]) (Inr [world])) pageSize []
     = (Inr [hello], [CacheListMessages 10])
   \<and> DB_ListMessages (listAPI (Inr [hello]) (Inr [world])) 1 9 [CacheListMessages 10]
       = (Inr [world], [CacheListMessages 10, DBListMessages 1 9])
   \<and> response (listMessages (listAPI (Inr [hello]) (Inr [world])) []) =
       \<lparr>status = 200, contentType = ''application/json; charset=utf-8'',
        body = MessagesBody
                 [\<lparr>json_id = ''1'', json_text = ''Hello'', json_user_id = ''testuser'',
                   json_created_at = ''Mon, 01 Jan 2024 00:00:00 UTC''\<rparr>,
                  \<lparr>json_id = ''2'', json_text = ''World'', json_user_id = ''testuser'',
                   json_created_at = ''Tue, 02 Jan 2024 00:00:00 UTC''\<rparr>]\<rparr>"
proof -
  have c: "Cache_ListMessages (listAPI (Inr [hello]) (Inr [world])) pageSize []
             = (Inr [hello], [CacheListMessages 10])"
    by (simp add: listAPI_def recAPI_def pageSize_def)
  have d: "DB_ListMessages (listAPI (Inr [hello]) (Inr [world])) (int (length [hello]))
             (pageSize - int (length [hello])) [CacheListMessages 10]
             = (Inr [world], [CacheListMessages 10, DBListMessages 1 9])"
    by (simp add: listAPI_def recAPI_def pageSize_def)
  have e: "pageSize \<le> int (length [hello]) \<Longrightarrow> [world] = []"
    by (simp add: pageSize_def)
  from listMessages_success_order [OF c d e] c d show ?thesis
    by (simp add: hello_def world_def formatRFC1123_jan1 formatRFC1123_jan2 pageSize_def)
qed

text \<open>
  Claim C3. When the cache read returns an error, the response is 500 with the body
  \<open>{"error":"Could not list messages"}\<close>, the error is logged, and the handler makes no
  further call: the state it leaves is the one the cache call returned, and recording
  collaborators have received the cache call only, so the durable store is not
  queried and no message is returned.
\<close>

theorem listMessages_cache_error:
  "(Cache_ListMessages a pageSize s = (Inl err, s1) \<longrightarrow>
      listMessages a s =
        \<lparr>response = \<lparr>status = 500, contentType = ''application/json; charset=utf-8'',
                     body = ErrorBody ''Could not list messages''\<rparr>,
         logged = [LogEntry LevelError ''Error'' [(''error'', StrAttr err)]],
         final = s1\<rparr>)
   \<and> (cacheList h pageSize = Inl err \<longrightarrow>
        final (listMessages (recAPI cacheList dbList dbInsert cacheInsert) h)
          = h @ [CacheListMessages 10])"
  by (simp add: listMessages_def recAPI_def respondError_def respond_def Let_def pageSize_def
           StatusInternalServerError_def)

theorem listMessages_cache_error_witness:
  "Cache_ListMessages (listAPI (Inl ''something went wrong'') (Inr [world])) pageSize []
     = (Inl ''something went wrong'', [CacheListMessages 10])
   \<and> listMessages (listAPI (Inl ''something went wrong'') (Inr [world])) [] =
       \<lparr>response = \<lparr>status = 500, contentType = ''application/json; charset=utf-8'',
                    body = ErrorBody ''Could not list messages''\<rparr>,
        logged = [LogEntry LevelError ''Error'' [(''error'', StrAttr ''something went wrong'')]],
        final = [CacheListMessages 10]\<rparr>"
  using listMessages_cache_error
          [of "listAPI (Inl ''something went wrong'') (Inr [world])" "[]"
              "''something went wrong''" "[CacheListMessages 10]"
              "\<lambda>h limit. Inl ''something went wrong''" "[]"]
  by (simp add: listAPI_def recAPI_def pageSize_def)

text \<open>
  Claim C4. When the cache read succeeds with fewer than \<open>pageSize\<close> messages and the
  store's read returns an error, the response is 500 with the body
  \<open>{"error":"Could not list messages"}\<close>; the body is not a list of messages whatever
  the cache had returned, the error is logged after the record of the cache read, and
  the state left is the one the store's call returned.
\<close>

theorem listMessages_db_error:
  assumes "Cache_ListMessages a pageSize s = (Inr msgs, s1)"
    and "int (length msgs) < pageSize"
    and "DB_ListMessages a (int (length msgs)) (pageSize - int (length msgs)) s1
           = (Inl err, s2)"
  shows "listMessages a s =
           \<lparr>response = \<lparr>status = 500, contentType = ''application/json; charset=utf-8'',
                        body = ErrorBody ''Could not list messages''\<rparr>,
            logged = [LogEntry LevelInfo ''Got messages from cache''
                        [(''count'', IntAttr (int (length msgs))),
                         (''remain'', IntAttr (10 - int (length msgs)))],
                      LogEntry LevelError ''Error'' [(''error'', StrAttr err)]],
            final = s2\<rparr>
         \<and> (\<forall>out. body (response (listMessages a s)) \<noteq> MessagesBody out)"
  using assms
  by (simp add: listMessages_def respondError_def respond_def Let_def pageSize_def
        StatusInternalServerError_def)

theorem listMessages_db_error_witness:
  "Cache_ListMessages (listAPI (Inr [hello]) (Inl ''something went wrong'')) pageSize []
     = (Inr [hello], [CacheListMessages 10])
   \<and> int (length [hello]) < pageSize
   \<and> DB_ListMessages (listAPI (Inr [hello]) (Inl ''something went wrong'')) 1 9
         [CacheListMessages 10]
       = (Inl ''something went wrong'', [CacheListMessages 10, DBListMessages 1 9])
   \<and> listMessages (listAPI (Inr [hello]) (Inl ''something went wrong'')) [] =
       \<lparr>response = \<lparr>status = 500, contentType = ''application/json; charset=utf-8'',
                    body = ErrorBody ''Could not list messages''\<rparr>,
        logged = [LogEntry LevelInfo ''Got messages from cache''
                    [(''count'', IntAttr 1), (''remain'', IntAttr 9)],
                  LogEntry LevelError ''Error'' [(''error'', StrAttr ''something went wrong'')]],
        final = [CacheListMessages 10, DBListMessages 1 9]\<rparr>"
  using listMessages_db_error
          [of "listAPI (Inr [hello]) (Inl ''something went wrong'')" "[]" "[hello]"
              "[CacheListMessages 10]" "''something went wrong''"
              "[CacheListMessages 10, DBListMessages 1 9]"]
  by (simp add: listAPI_def recAPI_def pageSize_def)

text \<open>
  Claim C10. When the cache returns more than \<open>pageSize\<close> messages, the handler makes
  no call after the cache's (recording collaborators have received the cache call
  only), and the response is 200 with the JSON forms of all messages the cache
  returned, none dropped: the body is longer than the page size.
\<close>

theorem listMessages_no_truncation:
  assumes "Cache_ListMessages a pageSize s = (Inr msgs, s1)"
    and "pageSize < int (length msgs)"
  shows "response (listMessages a s) =
           \<lparr>status = 200, contentType = ''application/json; charset=utf-8'',
            body = MessagesBody
                     (map (\<lambda>m. \<lparr>json_id = ID m, json_text = Text m, json_user_id = UserID m,
                                 json_created_at = formatRFC1123 (CreatedAt m)\<rparr>) msgs)\<rparr>
         \<and> final (listMessages a s) = s1
         \<and> (case body (response (listMessages a s)) of
              MessagesBody out \<Rightarrow> length out = length msgs \<and> 10 < length out
            | _ \<Rightarrow> False)
         \<and> (cacheList h pageSize = Inr msgs \<longrightarrow>
              final (listMessages (recAPI cacheList dbList dbInsert cacheInsert) h)
                = h @ [CacheListMessages 10])"
  using assms
  by (auto simp add: listMessages_def recAPI_def respond_def Let_def pageSize_def
        StatusOK_def toJSON_def [abs_def])

theorem listMessages_no_truncation_witness:
  "Cache_ListMessages (listAPI (Inr (replicate 11 hello)) (Inr [world])) pageSize []
     = (Inr (replicate 11 hello), [CacheListMessages 10])
   \<and> pageSize < int (length (replicate 11 hello))
   \<and> response (listMessages (listAPI (Inr (replicate 11 hello)) (Inr [world])) []) =
       \<lparr>status = 200, contentType = ''application/json; charset=utf-8'',
        body = MessagesBody
                 (replicate 11
                    \<lparr>json_id = ''1'', json_text = ''Hello'', json_user_id = ''testuser'',
                     json_created_at = ''Mon, 01 Jan 2024 00:00:00 UTC''\<rparr>)\<rparr>
   \<and> final (listMessages (listAPI (Inr (replicate 11 hello)) (Inr [world])) [])
       = [CacheListMessages 10]"
  using listMessages_no_truncation
          [where a = "listAPI (Inr (replicate 11 hello)) (Inr [world])" and s = "[]"
             and msgs = "replicate 11 hello" and ?s1.0 = "[CacheListMessages 10]"
             and cacheList = "\<lambda>h limit. Inr (replicate 11 hello)" and h = "[]"
             and dbList = "\<lambda>h offset limit. Inr [world]"
             and dbInsert = "\<lambda>h msg. Inl ''unused''" and cacheInsert = "\<lambda>h msg. None"]
  by (simp add: listAPI_def recAPI_def pageSize_def hello_def formatRFC1123_jan1)

section \<open>Creating a message\<close>

text \<open>
  Claim C5. If the store's insert fails, the response is 500 with the body
  \<open>{"error":"Could not insert message"}\<close>, and the handler makes no further call: the
  state is the one the insert returned, and recording collaborators have received the
  insert only, no cache write. If the insert succeeds with \<open>msg\<close> and the cache write
  that follows fails, the response is 201 with the JSON form of \<open>msg\<close>, equal to the
  response of a run in which the cache write succeeds; the cache's error appears in
  the log only, where the all-success run logs nothing.
\<close>

theorem createMessage_failure_policy:
  "(DB_InsertMessage a
       \<lparr>ID = [], Text = req_text req, UserID = req_user_id req, CreatedAt = now\<rparr> s
      = (Inl err, s1) \<longrightarrow>
    createMessage a now (Inr req) s =
      \<lparr>response = \<lparr>status = 500, contentType = ''application/json; charset=utf-8'',
                   body = ErrorBody ''Could not insert message''\<rparr>,
       logged = [LogEntry LevelError ''Error'' [(''error'', StrAttr err)]],
       final = s1\<rparr>)
   \<and> (dbInsert h \<lparr>ID = [], Text = req_text req, UserID = req_user_id req, CreatedAt = now\<rparr>
        = Inl err \<longrightarrow>
      final (createMessage (recAPI cacheList dbList dbInsert cacheInsert) now (Inr req) h) =
        h @ [DBInsertMessage
               \<lparr>ID = [], Text = req_text req, UserID = req_user_id req, CreatedAt = now\<rparr>])
   \<and> (DB_InsertMessage a
         \<lparr>ID = [], Text = req_text req, UserID = req_user_id req, CreatedAt = now\<rparr> s
        = (Inr msg, s1)
      \<and> Cache_InsertMessage a msg s1 = (Some cerr, s2)
      \<and> DB_InsertMessage b
           \<lparr>ID = [], Text = req_text req, UserID = req_user_id req, CreatedAt = now\<rparr> t
          = (Inr msg, t1)
      \<and> Cache_InsertMessage b msg t1 = (None, t2) \<longrightarrow>
      createMessage a now (Inr req) s =
        \<lparr>response = \<lparr>status = 201, contentType = ''application/json; charset=utf-8'',
                     body = MessageBody
                              \<lparr>json_id = ID msg, json_text = Text msg,
                               json_user_id = UserID msg,
                               json_created_at = formatRFC1123 (CreatedAt msg)\<rparr>\<rparr>,
         logged = [LogEntry LevelError ''Could not cache message'' [(''error'', StrAttr cerr)]],
         final = s2\<rparr>
      \<and> createMessage b now (Inr req) t =
          \<lparr>response = response (createMessage a now (Inr req) s), logged = [], final = t2\<rparr>)"
  by (simp add: createMessage_def recAPI_def respondError_def respond_def toJSON_def
        StatusInternalServerError_def StatusCreated_def)

theorem createMessage_failure_policy_witness:
  "DB_InsertMessage (createAPI (\<lambda>msg. Inl ''something went wrong'') None)
       \<lparr>ID = [], Text = ''hello'', UserID = ''test'', CreatedAt = jan2\<rparr> []
     = (Inl ''something went wrong'',
        [DBInsertMessage \<lparr>ID = [], Text = ''hello'', UserID = ''test'', CreatedAt = jan2\<rparr>])
   \<and> createMessage (createAPI (\<lambda>msg. Inl ''something went wrong'') None) jan2
         (Inr helloRequest) [] =
       \<lparr>response = \<lparr>status = 500, contentType = ''application/json; charset=utf-8'',
                    body = ErrorBody ''Could not insert message''\<rparr>,
        logged = [LogEntry LevelError ''Error'' [(''error'', StrAttr ''something went wrong'')]],
        final = [DBInsertMessage
                   \<lparr>ID = [], Text = ''hello'', UserID = ''test'', CreatedAt = jan2\<rparr>]\<rparr>
   \<and> Cache_InsertMessage (createAPI insertOK (Some ''something went wrong''))
         \<lparr>ID = ''1'', Text = ''hello'', UserID = ''test'', CreatedAt = jan1\<rparr>
         [DBInsertMessage \<lparr>ID = [], Text = ''hello'', UserID = ''test'', CreatedAt = jan2\<rparr>]
       = (Some ''something went wrong'',
          [DBInsertMessage \<lparr>ID = [], Text = ''hello'', UserID = ''test'', CreatedAt = jan2\<rparr>,
           CacheInsertMessage
             \<lparr>ID = ''1'', Text = ''hello'', UserID = ''test'', CreatedAt = jan1\<rparr>])
   \<and> createMessage (createAPI insertOK (Some ''something went wrong'')) jan2
         (Inr helloRequest) [] =
       \<lparr>response = \<lparr>status = 201, contentType = ''application/json; charset=utf-8'',
                    body = MessageBody
                             \<lparr>json_id = ''1'', json_text = ''hello'', json_user_id = ''test'',
                              json_created_at = ''Mon, 01 Jan 2024 00:00:00 UTC''\<rparr>\<rparr>,
        logged = [LogEntry LevelError ''Could not cache message''
                    [(''error'', StrAttr ''something went wrong'')]],
        final = [DBInsertMessage
                   \<lparr>ID = [], Text = ''hello'', UserID = ''test'', CreatedAt = jan2\<rparr>,
                 CacheInsertMessage
                   \<lparr>ID = ''1'', Text = ''hello'', UserID = ''test'', CreatedAt = jan1\<rparr>]\<rparr>
   \<and> response (createMessage (createAPI insertOK None) jan2 (Inr helloRequest) [])
       = response (createMessage (createAPI insertOK (Some ''something went wrong'')) jan2
                     (Inr helloRequest) [])
   \<and> logged (createMessage (createAPI insertOK None) jan2 (Inr helloRequest) []) = []"
  using createMessage_failure_policy
          [where a = "createAPI (\<lambda>msg. Inl ''something went wrong'') None"
             and req = helloRequest and now = jan2 and s = "[]"
             and err = "''something went wrong''"
             and ?s1.0 = "[DBInsertMessage
                             \<lparr>ID = [], Text = ''hello'', UserID = ''test'', CreatedAt = jan2\<rparr>]"
             and dbInsert = "\<lambda>h msg. Inl ''something went wrong''" and h = "[]"]
        createMessage_failure_policy
          [where a = "createAPI insertOK (Some ''something went wrong'')"
             and b = "createAPI insertOK None"
             and req = helloRequest and now = jan2 and s = "[]" and t = "[]"
             and msg = "\<lparr>ID = ''1'', Text = ''hello'', UserID = ''test'', CreatedAt = jan1\<rparr>"
             and cerr = "''something went wrong''"
             and ?s1.0 = "[DBInsertMessage
                             \<lparr>ID = [], Text = ''hello'', UserID = ''test'', CreatedAt = jan2\<rparr>]"
             and ?t1.0 = "[DBInsertMessage
                             \<lparr>ID = [], Text = ''hello'', UserID = ''test'', CreatedAt = jan2\<rparr>]"
             and ?s2.0 = "[DBInsertMessage
                             \<lparr>ID = [], Text = ''hello'', UserID = ''test'', CreatedAt = jan2\<rparr>,
                           CacheInsertMessage
                             \<lparr>ID = ''1'', Text = ''hello'', UserID = ''test'', CreatedAt = jan1\<rparr>]"
             and ?t2.0 = "[DBInsertMessage
                             \<lparr>ID = [], Text = ''hello'', UserID = ''test'', CreatedAt = jan2\<rparr>,
                           CacheInsertMessage
                             \<lparr>ID = ''1'', Text = ''hello'', UserID = ''test'', CreatedAt = jan1\<rparr>]"]
  by (simp add: createAPI_def recAPI_def insertOK_def helloRequest_def formatRFC1123_jan1)

text \<open>
  Claim C6. When the store's insert succeeds with \<open>msg\<close>, the response is 201 and its
  body is the JSON form of \<open>msg\<close>: identity, text and author of \<open>msg\<close>, and the
  timestamp of \<open>msg\<close> in the RFC1123 layout. The request carries a text and an author
  only. With the Postgres store the timestamp the handler reads from the clock does
  not reach the response either: two runs that differ in the clock alone respond
  alike.
\<close>

theorem createMessage_returns_store_message:
  "(DB_InsertMessage a
       \<lparr>ID = [], Text = req_text req, UserID = req_user_id req, CreatedAt = now\<rparr> s
      = (Inr msg, s1) \<longrightarrow>
    response (createMessage a now (Inr req) s) =
      \<lparr>status = 201, contentType = ''application/json; charset=utf-8'',
       body = MessageBody
                \<lparr>json_id = ID msg, json_text = Text msg, json_user_id = UserID msg,
                 json_created_at = formatRFC1123 (CreatedAt msg)\<rparr>\<rparr>)
   \<and> (DB_InsertMessage a = InsertMessage exec \<longrightarrow>
        response (createMessage a now' (Inr req) s) = response (createMessage a now (Inr req) s))"
  by (simp add: createMessage_def respondError_def respond_def toJSON_def InsertMessage_def
        StatusInternalServerError_def StatusCreated_def split: prod.splits sum.splits)

theorem createMessage_returns_store_message_witness:
  "DB_InsertMessage pgAPI
       \<lparr>ID = [], Text = ''hello'', UserID = ''test'', CreatedAt = jan2\<rparr> 0
     = (Inr \<lparr>ID = ''1'', Text = ''hello'', UserID = ''test'', CreatedAt = jan1\<rparr>, 1)
   \<and> response (createMessage pgAPI jan2 (Inr helloRequest) 0) =
       \<lparr>status = 201, contentType = ''application/json; charset=utf-8'',
        body = MessageBody
                 \<lparr>json_id = ''1'', json_text = ''hello'', json_user_id = ''test'',
                  json_created_at = ''Mon, 01 Jan 2024 00:00:00 UTC''\<rparr>\<rparr>
   \<and> DB_InsertMessage pgAPI = InsertMessage execOK
   \<and> response (createMessage pgAPI zeroTime (Inr helloRequest) 0)
       = response (createMessage pgAPI jan2 (Inr helloRequest) 0)"
  using createMessage_returns_store_message
          [where a = pgAPI and req = helloRequest and now = jan2 and s = 0
             and msg = "\<lparr>ID = ''1'', Text = ''hello'', UserID = ''test'', CreatedAt = jan1\<rparr>"
             and ?s1.0 = 1 and exec = execOK and now' = zeroTime]
  by (simp add: pgAPI_def InsertMessage_def execOK_def APIMessage_def helloRequest_def
        formatRFC1123_jan1)

text \<open>
  Claim C7, as stated, fails: the message that \<open>createMessage\<close> passes to the store's
  insert has its creation timestamp set by the handler, to the current time. With the
  clock at 2 January 2024 the store receives a message with that timestamp, which is
  not the zero value.
\<close>

theorem createMessage_stamps_argument_counterexample:
  "final (createMessage (createAPI insertOK None) jan2 (Inr helloRequest) []) =
     [DBInsertMessage \<lparr>ID = [], Text = ''hello'', UserID = ''test'', CreatedAt = jan2\<rparr>,
      CacheInsertMessage \<lparr>ID = ''1'', Text = ''hello'', UserID = ''test'', CreatedAt = jan1\<rparr>]
   \<and> jan2 \<noteq> zeroTime"
  by (simp add: createMessage_def createAPI_def recAPI_def insertOK_def helloRequest_def
        jan2_def zeroTime_def)

text \<open>
  Claim C7, amended. The message that \<open>createMessage\<close> passes to the store's insert
  has an empty identity and the current time as creation timestamp, beside the text
  and author of the request; the cache then receives the message the store returned,
  unchanged, and nothing when the insert failed. The Postgres store ignores identity
  and creation timestamp of the message it is given: the row it hands to the database
  has an empty identity and the zero timestamp, and the message it returns is built
  from the row as the database filled it in.
\<close>

theorem createMessage_identity_and_timestamp:
  "final (createMessage (recAPI cacheList dbList dbInsert cacheInsert) now (Inr req) h) =
     h @ DBInsertMessage
           \<lparr>ID = [], Text = req_text req, UserID = req_user_id req, CreatedAt = now\<rparr>
       # (case dbInsert h
                 \<lparr>ID = [], Text = req_text req, UserID = req_user_id req, CreatedAt = now\<rparr> of
            Inl err \<Rightarrow> []
          | Inr msg \<Rightarrow> [CacheInsertMessage msg])
   \<and> InsertMessage exec (m\<lparr>ID := i, CreatedAt := t\<rparr>) u = InsertMessage exec m u
   \<and> (exec \<lparr>row_id = [], MessageText = Text m, row_user_id = UserID m,
             row_created_at = zeroTime\<rparr> u = (Inr row, u1) \<longrightarrow>
        InsertMessage exec m u =
          (Inr \<lparr>ID = row_id row, Text = MessageText row, UserID = row_user_id row,
                CreatedAt = row_created_at row\<rparr>, u1))"
  by (simp add: createMessage_def recAPI_def respondError_def InsertMessage_def APIMessage_def
        split: sum.splits)

theorem createMessage_identity_and_timestamp_witness:
  "final (createMessage (createAPI insertOK None) jan2 (Inr helloRequest) []) =
     [DBInsertMessage \<lparr>ID = [], Text = ''hello'', UserID = ''test'', CreatedAt = jan2\<rparr>,
      CacheInsertMessage \<lparr>ID = ''1'', Text = ''hello'', UserID = ''test'', CreatedAt = jan1\<rparr>]
   \<and> InsertMessage execOK (hello\<lparr>ID := ''7'', CreatedAt := jan2\<rparr>) 0
       = InsertMessage execOK hello 0
   \<and> execOK \<lparr>row_id = [], MessageText = ''Hello'', row_user_id = ''testuser'',
              row_created_at = zeroTime\<rparr> 0
       = (Inr \<lparr>row_id = ''1'', MessageText = ''Hello'', row_user_id = ''testuser'',
               row_created_at = jan1\<rparr>, 1)
   \<and> InsertMessage execOK hello 0 = (Inr hello, 1)"
  using createMessage_identity_and_timestamp
          [where cacheList = "\<lambda>h limit. Inr []" and dbList = "\<lambda>h offset limit. Inr []"
             and dbInsert = "\<lambda>h msg. insertOK msg" and cacheInsert = "\<lambda>h msg. None"
             and now = jan2 and req = helloRequest and h = "[]"
             and exec = execOK and m = hello and i = "''7''" and t = jan2 and u = 0
             and row = "\<lparr>row_id = ''1'', MessageText = ''Hello'', row_user_id = ''testuser'',
                         row_created_at = jan1\<rparr>"
             and ?u1.0 = 1]
  by (simp add: createAPI_def insertOK_def helloRequest_def hello_def execOK_def)

section \<open>Rendering of timestamps\<close>





section \<open>Creating a reaction\<close>

text \<open>
  Claim C9. A body that does not decode gives 400 with the body
  \<open>{"error":"Could not decode request body"}\<close>. A body that decodes gives 501, for
  every message id, with an error text that ends in the message id of the path. In
  both cases the handler applies neither collaborator: the state is left as it was,
  so recording collaborators receive no call.
\<close>

theorem createReaction_not_implemented:
  "createReaction a messageID (Inl err) s =
     \<lparr>response = \<lparr>status = 400, contentType = ''application/json; charset=utf-8'',
                  body = ErrorBody ''Could not decode request body''\<rparr>,
      logged = [LogEntry LevelError ''Error'' [(''error'', StrAttr err)]],
      final = s\<rparr>
   \<and> createReaction a messageID (Inr req) s =
       \<lparr>response = \<lparr>status = 501, contentType = ''application/json; charset=utf-8'',
                    body = ErrorBody
                             (''could not create reaction for message with id '' @ messageID)\<rparr>,
        logged = [LogEntry LevelError ''Error''
                    [(''error'',
                      StrAttr (''could not create reaction for message with id '' @ messageID))]],
        final = s\<rparr>
   \<and> final (createReaction (recAPI cacheList dbList dbInsert cacheInsert) messageID decoded h)
       = h"
  by (cases decoded)
     (simp_all add: createReaction_def respondError_def respond_def Let_def
        StatusBadRequest_def StatusNotImplemented_def)

theorem createReaction_not_implemented_witness:
  "createReaction (createAPI insertOK None) ''1'' (Inl ''unexpected EOF'') [] =
     \<lparr>response = \<lparr>status = 400, contentType = ''application/json; charset=utf-8'',
                  body = ErrorBody ''Could not decode request body''\<rparr>,
      logged = [LogEntry LevelError ''Error'' [(''error'', StrAttr ''unexpected EOF'')]],
      final = []\<rparr>
   \<and> createReaction (createAPI insertOK None) ''1'' (Inr thumbsUp) [] =
       \<lparr>response = \<lparr>status = 501, contentType = ''application/json; charset=utf-8'',
                    body = ErrorBody ''could not create reaction for message with id 1''\<rparr>,
        logged = [LogEntry LevelError ''Error''
                    [(''error'', StrAttr ''could not create reaction for message with id 1'')]],
        final = []\<rparr>"
  using createReaction_not_implemented
          [where a = "createAPI insertOK None" and messageID = "''1''"
             and err = "''unexpected EOF''" and req = thumbsUp and s = "[]"]
  by simp

end
